theory Spec2Isabelle
  imports Main "HOL-Library.Sublist"
begin

section \<open>Data model of \<open>dsp/modules/llm.py\<close>\<close>

text \<open>
  Python values that the client only passes through (keyword-argument values, serialized
  parameters, log-probability payloads). \<open>PyNone\<close> is Python's \<open>None\<close>.
\<close>

datatype pyval =
    PyNone
  | PyBool bool
  | PyInt int
  | PyStr string
  | PyList "pyval list"
  | PyDict "(string \<times> pyval) list"

text \<open>Python truthiness, as used by \<open>choice.logprobs if choice.logprobs else None\<close>.\<close>

fun truthy :: "pyval \<Rightarrow> bool" where
  "truthy PyNone = False"
| "truthy (PyBool b) = b"
| "truthy (PyInt i) = (i \<noteq> 0)"
| "truthy (PyStr s) = (s \<noteq> [])"
| "truthy (PyList xs) = (xs \<noteq> [])"
| "truthy (PyDict kvs) = (kvs \<noteq> [])"

text \<open>A dict with string keys, in insertion order.\<close>

type_synonym pydict = "(string \<times> pyval) list"

text \<open>
  Modelled from the spec: the provider's response types \<open>Choices\<close>, \<open>ModelResponse\<close> and
  \<open>Usage\<close> are imported from \<open>litellm.types.utils\<close> and are not among the sources. A
  choice has a finish reason (possibly \<open>None\<close>), a message with its content, and
  log-probability data (\<open>PyNone\<close> when the provider sent none); a response has its choices
  and optional usage data.
\<close>

record Message =
  content :: string

record Choices =
  finish_reason :: "string option"
  message :: Message
  logprobs :: pyval

record Usage =
  total_tokens :: "int option"

record ModelResponse =
  choices :: "Choices list"
  usage :: "Usage option"

text \<open>
  Modelled from the spec: \<open>ChatMessage(role, content)\<close> is declared in
  \<open>dsp.modules.schemas\<close>, which is not among the sources. Its content field is named
  \<open>chat_content\<close> here, \<open>content\<close> being the field of the provider's \<open>Message\<close>.
\<close>

record ChatMessage =
  role :: string
  chat_content :: string

text \<open>
  Modelled from the spec: \<open>LLMModelParams\<close> is declared in \<open>dsp.modules.schemas\<close>, which is
  not among the sources. The record has the fields the client reads and writes. The
  configuration's \<open>logprobs\<close> flag is named \<open>params_logprobs\<close> (\<open>logprobs\<close> is the field of
  a choice); \<open>other\<close> holds the remaining provider parameters (model, temperature,
  credentials).
\<close>

record LLMModelParams =
  prompt :: string
  messages :: "ChatMessage list option"
  only_completed :: bool
  return_sorted :: bool
  params_logprobs :: bool
  other :: pydict

text \<open>
  \<open>DSPyModelResponse\<close>: the dict built by the transformation, with the two keys the source
  writes. \<open>text_key\<close> is the value under \<open>"text"\<close>. \<open>logprobs_key = None\<close> is a dict
  without the key \<open>"logprobs"\<close>; \<open>Some PyNone\<close> is the key present with value \<open>None\<close>.
\<close>

record DSPyModelResponse =
  text_key :: string
  logprobs_key :: "pyval option"

text \<open>One element of \<open>history\<close>: the dict appended by \<open>basic_request\<close>.\<close>

record history_entry =
  h_prompt :: string
  h_response :: ModelResponse
  h_raw_kwargs :: pydict
  h_kwargs :: pydict

datatype error =
    AssertionError string
  | TypeError string
  | ProviderError string

section \<open>Pure operations\<close>

text \<open>
  \<open>filter_only_completed\<close>: the comprehension keeps the choices whose finish reason is not
  \<open>"length"\<close>; \<open>if len(filtered_choices)\<close> returns them when there is at least one, and the
  original list otherwise.
\<close>

definition filter_only_completed :: "Choices list \<Rightarrow> Choices list" where
  "filter_only_completed cs =
     (let filtered_choices = filter (\<lambda>c. finish_reason c \<noteq> Some ''length'') cs
      in if length filtered_choices \<noteq> 0 then filtered_choices else cs)"

definition get_text_from_choice :: "Choices \<Rightarrow> string" where
  "get_text_from_choice choice = content (message choice)"

text \<open>
  The loop of \<open>transform_choices_to_dspy_model_response\<close>, with \<open>dspy_choices\<close> as the
  accumulator: append \<open>{"text": ...}\<close>, then, when \<open>add_logprobs\<close> holds, store the key
  \<open>"logprobs"\<close> into the last element (\<open>dspy_choices[-1]\<close>).
\<close>

fun transform_loop ::
  "Choices list \<Rightarrow> bool \<Rightarrow> DSPyModelResponse list \<Rightarrow> DSPyModelResponse list" where
  "transform_loop [] add_logprobs dspy_choices = dspy_choices"
| "transform_loop (choice # rest) add_logprobs dspy_choices =
     (let appended = dspy_choices @
            [\<lparr>text_key = get_text_from_choice choice, logprobs_key = None\<rparr>];
          stored =
            (if add_logprobs
             then appended[length appended - 1 :=
                    (appended ! (length appended - 1))
                      \<lparr>logprobs_key :=
                         Some (if truthy (logprobs choice) then logprobs choice else PyNone)\<rparr>]
             else appended)
      in transform_loop rest add_logprobs stored)"

definition transform_choices_to_dspy_model_response ::
  "Choices list \<Rightarrow> bool \<Rightarrow> DSPyModelResponse list" where
  "transform_choices_to_dspy_model_response cs add_logprobs = transform_loop cs add_logprobs []"

section \<open>State, provider and client operations\<close>

text \<open>
  \<open>LLMModelParams\<close> objects are held by reference, so they live in a store indexed by
  address; an \<open>LLM\<close> instance holds the address it was constructed with.
\<close>

type_synonym addr = nat

record LLM =
  llm_params :: addr

text \<open>
  The state a call runs in.
  \<^item> \<open>LLM_history\<close> is the list bound by \<open>history: list[dict[str, Any]] = []\<close> in the class
    body. \<open>__init__\<close> binds only \<open>self.llm_params\<close>, so \<open>self.history\<close> resolves to this
    one class attribute for every instance, and \<open>self.history.append\<close> mutates it in place.
  \<^item> \<open>store\<close> maps an address to the \<open>LLMModelParams\<close> object there.
  \<^item> \<open>provider_calls\<close> is the provider's side: the keyword arguments of each call of
    \<open>litellm.completion\<close> that was made, in order.
  \<^item> \<open>debug_records\<close> are the token counts handed to \<open>logger.debug\<close> by \<open>log_usage\<close>.
\<close>

record world =
  LLM_history :: "history_entry list"
  store :: "addr \<Rightarrow> LLMModelParams"
  provider_calls :: "pydict list"
  debug_records :: "int option list"

text \<open>
  The two external collaborators are parameters of the model: \<open>litellm.completion\<close>, which
  returns a response or raises, and \<open>LLMModelParams.to_json(ignore_sensitive)\<close>.
\<close>

type_synonym provider = "pydict \<Rightarrow> error + ModelResponse"

type_synonym serializer = "LLMModelParams \<Rightarrow> bool \<Rightarrow> pydict"

text \<open>\<open>LLM.__init__\<close>: stores the reference; nothing else is bound on the instance.\<close>

definition LLM_init :: "addr \<Rightarrow> LLM" where
  "LLM_init llm_params_ref = \<lparr>llm_params = llm_params_ref\<rparr>"

text \<open>\<open>self.history\<close>: attribute lookup on the instance, found on the class.\<close>

definition history :: "world \<Rightarrow> LLM \<Rightarrow> history_entry list" where
  "history w self = LLM_history w"

text \<open>
  A call \<open>f(**first, **second)\<close>: Python raises \<open>TypeError\<close> (``got multiple values for
  keyword argument'') for the first key of \<open>second\<close> that \<open>first\<close> already has, before \<open>f\<close>
  is entered; otherwise \<open>f\<close> receives all the entries. The error carries the repeated key.
\<close>

definition call_with_kwargs :: "pydict \<Rightarrow> pydict \<Rightarrow> error + pydict" where
  "call_with_kwargs first second =
     (case filter (\<lambda>k. k \<in> set (map fst first)) (map fst second) of
        [] \<Rightarrow> Inr (first @ second)
      | k # _ \<Rightarrow> Inl (TypeError k))"

text \<open>
  \<open>update_messages_with_prompt\<close>: overwrite \<open>prompt\<close>; \<open>if not messages\<close> (unset or empty)
  start from the empty list; append the user message. After the second step \<open>messages\<close> is
  a list, so the \<open>None\<close> branch of the third step is never taken.
\<close>

definition update_messages_with_prompt :: "LLM \<Rightarrow> string \<Rightarrow> world \<Rightarrow> world" where
  "update_messages_with_prompt self p w =
     (let a = llm_params self;
          params1 = (store w a)\<lparr>prompt := p\<rparr>;
          params2 = (case messages params1 of
                       None \<Rightarrow> params1\<lparr>messages := Some []\<rparr>
                     | Some [] \<Rightarrow> params1\<lparr>messages := Some []\<rparr>
                     | Some (m # ms) \<Rightarrow> params1);
          params3 = (case messages params2 of
                       None \<Rightarrow> params2
                     | Some ms \<Rightarrow>
                         params2\<lparr>messages := Some (ms @ [\<lparr>role = ''user'', chat_content = p\<rparr>])\<rparr>)
      in w\<lparr>store := (store w)(a := params3)\<rparr>)"

text \<open>
  \<open>basic_request\<close>: update the messages, call the provider with the serialized
  configuration and the keyword arguments, and on success append the exchange to
  \<open>self.history\<close>. An exception leaves the function at the point it is raised.
\<close>

definition basic_request ::
  "provider \<Rightarrow> serializer \<Rightarrow> LLM \<Rightarrow> string \<Rightarrow> pydict \<Rightarrow> world
     \<Rightarrow> (error + ModelResponse) \<times> world" where
  "basic_request completion to_json self p kwargs w =
     (let w1 = update_messages_with_prompt self p w
      in case call_with_kwargs (to_json (store w1 (llm_params self)) False) kwargs of
           Inl e \<Rightarrow> (Inl e, w1)
         | Inr args \<Rightarrow>
             (let w2 = w1\<lparr>provider_calls := provider_calls w1 @ [args]\<rparr>
              in case completion args of
                   Inl e \<Rightarrow> (Inl e, w2)
                 | Inr response \<Rightarrow>
                     (Inr response,
                      w2\<lparr>LLM_history := LLM_history w2 @
                           [\<lparr>h_prompt = p,
                             h_response = response,
                             h_raw_kwargs = kwargs,
                             h_kwargs = to_json (store w2 (llm_params self)) True\<rparr>]\<rparr>)))"

definition request ::
  "provider \<Rightarrow> serializer \<Rightarrow> LLM \<Rightarrow> string \<Rightarrow> pydict \<Rightarrow> world
     \<Rightarrow> (error + ModelResponse) \<times> world" where
  "request completion to_json self p kwargs w = basic_request completion to_json self p kwargs w"

text \<open>\<open>log_usage\<close>: when the response has usage data, hand its total to \<open>logger.debug\<close>.\<close>

definition log_usage :: "ModelResponse \<Rightarrow> world \<Rightarrow> world" where
  "log_usage response w =
     (case usage response of
        None \<Rightarrow> w
      | Some usage_data \<Rightarrow> w\<lparr>debug_records := debug_records w @ [total_tokens usage_data]\<rparr>)"

text \<open>
  \<open>LLM.__call__\<close>: store the flag, check the two assertions, request, log, filter,
  transform. The flags are read from the configuration at the point the source reads them.
\<close>

definition LLM_call ::
  "provider \<Rightarrow> serializer \<Rightarrow> LLM \<Rightarrow> string \<Rightarrow> bool \<Rightarrow> pydict \<Rightarrow> world
     \<Rightarrow> (error + DSPyModelResponse list) \<times> world" where
  "LLM_call completion to_json self p only_completed_arg kwargs w =
     (let a = llm_params self;
          w0 = w\<lparr>store := (store w)(a := (store w a)\<lparr>only_completed := only_completed_arg\<rparr>)\<rparr>
      in if \<not> only_completed (store w0 a) then (Inl (AssertionError ''for now''), w0)
         else if return_sorted (store w0 a) \<noteq> False then (Inl (AssertionError ''for now''), w0)
         else case request completion to_json self p kwargs w0 of
                (Inl e, w1) \<Rightarrow> (Inl e, w1)
              | (Inr response, w1) \<Rightarrow>
                  (let w2 = log_usage response w1;
                       cs = (if only_completed (store w2 a)
                             then filter_only_completed (choices response)
                             else choices response)
                   in (Inr (transform_choices_to_dspy_model_response cs
                              (params_logprobs (store w2 a))), w2)))"

text \<open>
  A caller making calls one after another on one client, each with its own prompt, flag,
  keyword arguments and provider outcome. The caller keeps going after a failed call.
\<close>

fun run_calls ::
  "serializer \<Rightarrow> LLM \<Rightarrow> (string \<times> bool \<times> pydict \<times> provider) list \<Rightarrow> world \<Rightarrow> world" where
  "run_calls to_json self [] w = w"
| "run_calls to_json self ((p, only_completed_arg, kwargs, completion) # rest) w =
     run_calls to_json self rest
       (snd (LLM_call completion to_json self p only_completed_arg kwargs w))"

text \<open>The message sequence of a configuration, an unset one being empty.\<close>

definition messages_list :: "LLMModelParams \<Rightarrow> ChatMessage list" where
  "messages_list params = (case messages params of None \<Rightarrow> [] | Some ms \<Rightarrow> ms)"

section \<open>Concrete inputs\<close>

text \<open>
  Modelled from the spec: \<open>LLMModelParams.to_json\<close> is defined in \<open>dsp.modules.schemas\<close>,
  which is not among the sources. This serializer writes the message sequence and the
  other parameters, and leaves the credential out when \<open>ignore_sensitive\<close> is set. It is
  used for concrete runs only; the general theorems hold for every serializer.
\<close>

definition sample_to_json :: serializer where
  "sample_to_json params ignore_sensitive =
     (''messages'',
        PyList (map (\<lambda>m. PyDict [(''role'', PyStr (role m)), (''content'', PyStr (chat_content m))])
                    (messages_list params)))
     # filter (\<lambda>kv. \<not> (ignore_sensitive \<and> fst kv = ''api_key'')) (other params)"

definition sample_params :: LLMModelParams where
  "sample_params =
     \<lparr>prompt = [], messages = None, only_completed = True, return_sorted = False,
      params_logprobs = True,
      other = [(''model'', PyStr ''gpt''), (''temperature'', PyInt 0), (''api_key'', PyStr ''k'')]\<rparr>"

definition choice_A :: Choices where
  "choice_A = \<lparr>finish_reason = Some ''length'', message = \<lparr>content = ''A''\<rparr>, logprobs = PyNone\<rparr>"

definition choice_B :: Choices where
  "choice_B =
     \<lparr>finish_reason = Some ''stop'', message = \<lparr>content = ''B''\<rparr>,
      logprobs = PyDict [(''tokens'', PyList [PyStr ''B''])]\<rparr>"

definition sample_response :: ModelResponse where
  "sample_response = \<lparr>choices = [choice_A, choice_B], usage = Some \<lparr>total_tokens = Some 7\<rparr>\<rparr>"

definition truncated_response :: ModelResponse where
  "truncated_response = \<lparr>choices = [choice_A, choice_A], usage = None\<rparr>"

definition sample_completion :: provider where
  "sample_completion args = Inr sample_response"

definition truncated_completion :: provider where
  "truncated_completion args = Inr truncated_response"

definition failing_completion :: provider where
  "failing_completion args = Inl (ProviderError ''quota'')"

text \<open>
  The state after the module is loaded: the class attribute is the empty list; every
  address holds \<open>sample_params\<close>.
\<close>

definition world0 :: world where
  "world0 = \<lparr>LLM_history = [], store = (\<lambda>a. sample_params), provider_calls = [],
             debug_records = []\<rparr>"

text \<open>The same state with \<open>return_sorted\<close> set in every configuration.\<close>

definition sorted_world :: world where
  "sorted_world = world0\<lparr>store := (\<lambda>a. sample_params\<lparr>return_sorted := True\<rparr>)\<rparr>"

section \<open>Auxiliary facts\<close>

lemma transform_loop_append:
  "transform_loop cs add_logprobs acc =
     acc @ map (\<lambda>c. \<lparr>text_key = get_text_from_choice c,
                      logprobs_key = (if add_logprobs
                                      then Some (if truthy (logprobs c) then logprobs c else PyNone)
                                      else None)\<rparr>) cs"
  by (induction cs arbitrary: acc) (auto simp: Let_def nth_append)

lemma transform_as_map:
  "transform_choices_to_dspy_model_response cs add_logprobs =
     map (\<lambda>c. \<lparr>text_key = get_text_from_choice c,
                logprobs_key = (if add_logprobs
                                then Some (if truthy (logprobs c) then logprobs c else PyNone)
                                else None)\<rparr>) cs"
  by (simp add: transform_choices_to_dspy_model_response_def transform_loop_append)

lemma store_update_messages:
  "store (update_messages_with_prompt self p w) =
     (store w)(llm_params self :=
        (store w (llm_params self))
          \<lparr>prompt := p,
           messages := Some (messages_list (store w (llm_params self)) @
                             [\<lparr>role = ''user'', chat_content = p\<rparr>])\<rparr>)"
  by (simp add: update_messages_with_prompt_def messages_list_def Let_def
           split: option.splits list.splits)

lemma rest_update_messages:
  "LLM_history (update_messages_with_prompt self p w) = LLM_history w"
  "provider_calls (update_messages_with_prompt self p w) = provider_calls w"
  "debug_records (update_messages_with_prompt self p w) = debug_records w"
  by (simp_all add: update_messages_with_prompt_def Let_def)

lemma rest_log_usage:
  "LLM_history (log_usage response w) = LLM_history w"
  "provider_calls (log_usage response w) = provider_calls w"
  "store (log_usage response w) = store w"
  by (simp_all add: log_usage_def split: option.splits)

lemma basic_request_store:
  "store (snd (basic_request completion to_json self p kwargs w)) =
     store (update_messages_with_prompt self p w)"
  by (simp add: basic_request_def Let_def split: sum.splits)

lemma basic_request_Inr:
  assumes "basic_request completion to_json self p kwargs w = (Inr response, w')"
  shows "\<exists>args. call_with_kwargs (to_json (store w' (llm_params self)) False) kwargs = Inr args
           \<and> completion args = Inr response
           \<and> provider_calls w' = provider_calls w @ [args]
           \<and> LLM_history w' = LLM_history w @
                [\<lparr>h_prompt = p, h_response = response, h_raw_kwargs = kwargs,
                  h_kwargs = to_json (store w' (llm_params self)) True\<rparr>]
           \<and> debug_records w' = debug_records w"
  using assms
  by (auto simp: basic_request_def Let_def rest_update_messages split: sum.splits)

lemma basic_request_Inl:
  assumes "basic_request completion to_json self p kwargs w = (Inl e, w')"
  shows "LLM_history w' = LLM_history w
           \<and> (call_with_kwargs (to_json (store w' (llm_params self)) False) kwargs = Inl e
                 \<and> provider_calls w' = provider_calls w
               \<or> (\<exists>args. call_with_kwargs (to_json (store w' (llm_params self)) False) kwargs = Inr args
                     \<and> completion args = Inl e \<and> provider_calls w' = provider_calls w @ [args]))"
  using assms
  by (auto simp: basic_request_def Let_def rest_update_messages split: sum.splits)


lemma LLM_call_assert:
  assumes "return_sorted (store w (llm_params self)) \<or> \<not> only_completed_arg"
  shows "LLM_call completion to_json self p only_completed_arg kwargs w =
           (Inl (AssertionError ''for now''),
            w\<lparr>store := (store w)(llm_params self :=
                 (store w (llm_params self))\<lparr>only_completed := only_completed_arg\<rparr>)\<rparr>)"
  using assms by (auto simp: LLM_call_def Let_def)

lemma LLM_call_pass:
  assumes "only_completed_arg" and "\<not> return_sorted (store w (llm_params self))"
  shows "LLM_call completion to_json self p only_completed_arg kwargs w =
           (case basic_request completion to_json self p kwargs
                   (w\<lparr>store := (store w)(llm_params self :=
                        (store w (llm_params self))\<lparr>only_completed := True\<rparr>)\<rparr>) of
              (Inl e, w1) \<Rightarrow> (Inl e, w1)
            | (Inr response, w1) \<Rightarrow>
                (Inr (transform_choices_to_dspy_model_response
                        (filter_only_completed (choices response))
                        (params_logprobs (store w (llm_params self)))),
                 log_usage response w1))"
proof -
  let ?w0 = "w\<lparr>store := (store w)(llm_params self :=
                 (store w (llm_params self))\<lparr>only_completed := True\<rparr>)\<rparr>"
  obtain r w1 where br: "basic_request completion to_json self p kwargs ?w0 = (r, w1)"
    by (cases "basic_request completion to_json self p kwargs ?w0")
  have "store w1 = store (update_messages_with_prompt self p ?w0)"
    using basic_request_store [of completion to_json self p kwargs ?w0] br by simp
  then have flags: "only_completed (store w1 (llm_params self))"
    "params_logprobs (store w1 (llm_params self)) = params_logprobs (store w (llm_params self))"
    by (simp_all add: store_update_messages)
  show ?thesis
    using assms br flags
    by (cases r) (simp_all add: LLM_call_def request_def Let_def rest_log_usage)
qed

lemma LLM_call_Inr:
  assumes "LLM_call completion to_json self p only_completed_arg kwargs w = (Inr out, w')"
  shows "only_completed_arg \<and> \<not> return_sorted (store w (llm_params self))
         \<and> (\<exists>args response.
               call_with_kwargs (to_json (store w' (llm_params self)) False) kwargs = Inr args
             \<and> completion args = Inr response
             \<and> provider_calls w' = provider_calls w @ [args]
             \<and> LLM_history w' = LLM_history w @
                  [\<lparr>h_prompt = p, h_response = response, h_raw_kwargs = kwargs,
                    h_kwargs = to_json (store w' (llm_params self)) True\<rparr>]
             \<and> out = transform_choices_to_dspy_model_response
                       (filter_only_completed (choices response))
                       (params_logprobs (store w (llm_params self))))"
proof -
  have pre: "only_completed_arg \<and> \<not> return_sorted (store w (llm_params self))"
  proof (rule ccontr)
    assume "\<not> ?thesis"
    then have "return_sorted (store w (llm_params self)) \<or> \<not> only_completed_arg" by blast
    from LLM_call_assert [OF this, of completion to_json p kwargs] assms show False by simp
  qed
  let ?w0 = "w\<lparr>store := (store w)(llm_params self :=
                 (store w (llm_params self))\<lparr>only_completed := True\<rparr>)\<rparr>"
  obtain r w1 where br: "basic_request completion to_json self p kwargs ?w0 = (r, w1)"
    by (cases "basic_request completion to_json self p kwargs ?w0")
  from pre have eq: "LLM_call completion to_json self p only_completed_arg kwargs w =
      (case (r, w1) of (Inl e, w1) \<Rightarrow> (Inl e, w1)
        | (Inr response, w1) \<Rightarrow>
            (Inr (transform_choices_to_dspy_model_response
                    (filter_only_completed (choices response))
                    (params_logprobs (store w (llm_params self)))),
             log_usage response w1))"
    using LLM_call_pass [of only_completed_arg w self completion to_json p kwargs] br by simp
  with assms obtain response where r: "r = Inr response"
    and out: "out = transform_choices_to_dspy_model_response
                    (filter_only_completed (choices response))
                    (params_logprobs (store w (llm_params self)))"
    and w': "w' = log_usage response w1"
    by (cases r) auto
  from basic_request_Inr [OF br [unfolded r]] obtain args where
    "call_with_kwargs (to_json (store w1 (llm_params self)) False) kwargs = Inr args"
    "completion args = Inr response"
    "provider_calls w1 = provider_calls ?w0 @ [args]"
    "LLM_history w1 = LLM_history ?w0 @
        [\<lparr>h_prompt = p, h_response = response, h_raw_kwargs = kwargs,
          h_kwargs = to_json (store w1 (llm_params self)) True\<rparr>]"
    by blast
  then show ?thesis
    using pre out w' by (simp add: rest_log_usage)
qed

lemma LLM_call_Inl:
  assumes "LLM_call completion to_json self p only_completed_arg kwargs w = (Inl e, w')"
  shows "LLM_history w' = LLM_history w"
proof (cases "return_sorted (store w (llm_params self)) \<or> \<not> only_completed_arg")
  case True
  from LLM_call_assert [OF True, of completion to_json p kwargs] assms show ?thesis
    by auto
next
  case False
  let ?w0 = "w\<lparr>store := (store w)(llm_params self :=
                 (store w (llm_params self))\<lparr>only_completed := True\<rparr>)\<rparr>"
  obtain r w1 where br: "basic_request completion to_json self p kwargs ?w0 = (r, w1)"
    by (cases "basic_request completion to_json self p kwargs ?w0")
  from False assms br have "r = Inl e" "w' = w1"
    using LLM_call_pass [of only_completed_arg w self completion to_json p kwargs]
    by (cases r; simp)+
  with basic_request_Inl [of completion to_json self p kwargs ?w0 e w1] br show ?thesis
    by simp
qed


lemma LLM_call_Inl_calls:
  assumes "LLM_call completion to_json self p only_completed_arg kwargs w = (Inl e, w')"
  shows "provider_calls w' = provider_calls w
         \<or> (\<exists>args. provider_calls w' = provider_calls w @ [args] \<and> completion args = Inl e)"
proof (cases "return_sorted (store w (llm_params self)) \<or> \<not> only_completed_arg")
  case True
  from LLM_call_assert [OF True, of completion to_json p kwargs] assms show ?thesis
    by auto
next
  case False
  let ?w0 = "w\<lparr>store := (store w)(llm_params self :=
                 (store w (llm_params self))\<lparr>only_completed := True\<rparr>)\<rparr>"
  obtain r w1 where br: "basic_request completion to_json self p kwargs ?w0 = (r, w1)"
    by (cases "basic_request completion to_json self p kwargs ?w0")
  from False assms br have "r = Inl e" "w' = w1"
    using LLM_call_pass [of only_completed_arg w self completion to_json p kwargs]
    by (cases r; simp)+
  with basic_request_Inl [of completion to_json self p kwargs ?w0 e w1] br show ?thesis
    by auto
qed

lemma call_with_kwargs_disjoint:
  assumes "set (map fst second) \<inter> set (map fst first) = {}"
  shows "call_with_kwargs first second = Inr (first @ second)"
proof -
  from assms have "filter (\<lambda>k. k \<in> set (map fst first)) (map fst second) = []"
    by (auto simp: filter_empty_conv)
  then show ?thesis
    by (simp add: call_with_kwargs_def)
qed

lemma call_with_kwargs_collision:
  assumes "set (map fst second) \<inter> set (map fst first) \<noteq> {}"
  shows "\<exists>k \<in> set (map fst second) \<inter> set (map fst first).
           call_with_kwargs first second = Inl (TypeError k)"
proof -
  let ?dups = "filter (\<lambda>k. k \<in> set (map fst first)) (map fst second)"
  from assms have "?dups \<noteq> []"
    by (auto simp: filter_empty_conv)
  then obtain k ks where dups: "?dups = k # ks"
    by (cases ?dups) auto
  then have "k \<in> set ?dups"
    by simp
  then have "k \<in> set (map fst second) \<inter> set (map fst first)"
    by auto
  moreover from dups have "call_with_kwargs first second = Inl (TypeError k)"
    by (simp add: call_with_kwargs_def)
  ultimately show ?thesis
    by blast
qed

lemma LLM_call_store_pass:
  assumes "only_completed_arg" and "\<not> return_sorted (store w (llm_params self))"
  shows "store (snd (LLM_call completion to_json self p only_completed_arg kwargs w)) =
           (store w)(llm_params self :=
              (store w (llm_params self))
                \<lparr>only_completed := True,
                 prompt := p,
                 messages := Some (messages_list (store w (llm_params self)) @
                                   [\<lparr>role = ''user'', chat_content = p\<rparr>])\<rparr>)"
proof -
  let ?w0 = "w\<lparr>store := (store w)(llm_params self :=
                 (store w (llm_params self))\<lparr>only_completed := True\<rparr>)\<rparr>"
  obtain r w1 where br: "basic_request completion to_json self p kwargs ?w0 = (r, w1)"
    by (cases "basic_request completion to_json self p kwargs ?w0")
  have w1: "store w1 = store (update_messages_with_prompt self p ?w0)"
    using basic_request_store [of completion to_json self p kwargs ?w0] br by simp
  have eq: "store (snd (LLM_call completion to_json self p only_completed_arg kwargs w)) = store w1"
    using LLM_call_pass [OF assms, of completion to_json p kwargs] br
    by (cases r) (simp_all add: rest_log_usage)
  show ?thesis
    unfolding eq w1 store_update_messages by (simp add: messages_list_def)
qed


lemma LLM_call_history_prefix:
  "prefix (LLM_history w)
     (LLM_history (snd (LLM_call completion to_json self p only_completed_arg kwargs w)))"
proof -
  let ?res = "LLM_call completion to_json self p only_completed_arg kwargs w"
  show ?thesis
  proof (cases "fst ?res")
    case (Inl e)
    then have "?res = (Inl e, snd ?res)"
      by (cases ?res) simp
    from LLM_call_Inl [OF this] show ?thesis
      by simp
  next
    case (Inr out)
    then have "?res = (Inr out, snd ?res)"
      by (cases ?res) simp
    from LLM_call_Inr [OF this] show ?thesis
      by auto
  qed
qed

lemma run_calls_history_prefix:
  "prefix (LLM_history w) (LLM_history (run_calls to_json self calls w))"
proof (induction calls arbitrary: w)
  case Nil
  show ?case by simp
next
  case (Cons c calls)
  obtain p oc kwargs completion where c: "c = (p, oc, kwargs, completion)"
    by (cases c) auto
  have "prefix (LLM_history w) (LLM_history (snd (LLM_call completion to_json self p oc kwargs w)))"
    by (rule LLM_call_history_prefix)
  also have "prefix \<dots> (LLM_history (run_calls to_json self (c # calls) w))"
    unfolding c by (simp add: Cons.IH)
  finally show ?case .
qed

lemma filter_only_completed_cases:
  "filter_only_completed cs =
     (if \<exists>c \<in> set cs. finish_reason c \<noteq> Some ''length''
      then filter (\<lambda>c. finish_reason c \<noteq> Some ''length'') cs else cs)"
  by (auto simp: filter_only_completed_def Let_def filter_empty_conv)

lemma LLM_call_kwargs_pass:
  assumes "only_completed_arg" and "\<not> return_sorted (store w (llm_params self))"
  shows
    "let res = LLM_call completion to_json self p only_completed_arg kwargs w;
         json = to_json ((store w (llm_params self))
                  \<lparr>only_completed := True,
                   prompt := p,
                   messages := Some (messages_list (store w (llm_params self)) @
                                     [\<lparr>role = ''user'', chat_content = p\<rparr>])\<rparr>) False
     in if set (map fst kwargs) \<inter> set (map fst json) = {}
        then provider_calls (snd res) = provider_calls w @ [json @ kwargs]
        else (\<exists>k \<in> set (map fst kwargs) \<inter> set (map fst json). fst res = Inl (TypeError k))
             \<and> provider_calls (snd res) = provider_calls w
             \<and> LLM_history (snd res) = LLM_history w"
proof -
  let ?a = "llm_params self"
  let ?w0 = "w\<lparr>store := (store w)(?a := (store w ?a)\<lparr>only_completed := True\<rparr>)\<rparr>"
  let ?w1 = "update_messages_with_prompt self p ?w0"
  let ?params = "(store w ?a)
                  \<lparr>only_completed := True,
                   prompt := p,
                   messages := Some (messages_list (store w ?a) @
                                     [\<lparr>role = ''user'', chat_content = p\<rparr>])\<rparr>"
  let ?json = "to_json ?params False"
  let ?res = "LLM_call completion to_json self p only_completed_arg kwargs w"
  have params: "store ?w1 ?a = ?params"
    by (simp add: store_update_messages messages_list_def)
  have res: "?res =
      (case basic_request completion to_json self p kwargs ?w0 of
         (Inl e, w1) \<Rightarrow> (Inl e, w1)
       | (Inr response, w1) \<Rightarrow>
           (Inr (transform_choices_to_dspy_model_response
                   (filter_only_completed (choices response))
                   (params_logprobs (store w ?a))),
            log_usage response w1))"
    using LLM_call_pass [OF assms] .
  show ?thesis
  proof (cases "set (map fst kwargs) \<inter> set (map fst ?json) = {}")
    case True
    then have cw: "call_with_kwargs ?json kwargs = Inr (?json @ kwargs)"
      by (rule call_with_kwargs_disjoint)
    have "provider_calls (snd ?res) = provider_calls w @ [?json @ kwargs]"
      unfolding res
      by (cases "completion (?json @ kwargs)")
         (simp_all add: basic_request_def Let_def params cw rest_update_messages rest_log_usage)
    with True show ?thesis
      by (simp add: Let_def)
  next
    case False
    from call_with_kwargs_collision [OF False] obtain k where
      k: "k \<in> set (map fst kwargs) \<inter> set (map fst ?json)"
      and cw: "call_with_kwargs ?json kwargs = Inl (TypeError k)"
      by blast
    have "?res = (Inl (TypeError k), ?w1)"
      unfolding res by (simp add: basic_request_def Let_def params cw)
    then have "fst ?res = Inl (TypeError k)" "provider_calls (snd ?res) = provider_calls w"
      "LLM_history (snd ?res) = LLM_history w"
      by (simp_all add: rest_update_messages)
    with k False show ?thesis
      unfolding Let_def by (simp only: if_False) blast
  qed
qed

text \<open>The definitions unfolded to run the model on a concrete input.\<close>

lemmas run_defs =
  LLM_call_def request_def basic_request_def update_messages_with_prompt_def
  call_with_kwargs_def log_usage_def filter_only_completed_def
  transform_choices_to_dspy_model_response_def get_text_from_choice_def
  sample_to_json_def sample_params_def sample_response_def truncated_response_def
  sample_completion_def truncated_completion_def failing_completion_def
  choice_A_def choice_B_def world0_def sorted_world_def LLM_init_def messages_list_def
  history_def Let_def

section \<open>Keyword arguments and the serialized configuration\<close>

text \<open>
  C1, as stated, fails: with \<open>temperature\<close> both in the serialized configuration and in the
  keyword arguments, the call does not succeed. It raises \<open>TypeError\<close> for that key and the
  provider is never called.
\<close>

theorem extra_params_collision_fails:
  "fst (LLM_call sample_completion sample_to_json (LLM_init 0) ''hi'' True
          [(''temperature'', PyInt 1)] world0) = Inl (TypeError ''temperature'')
   \<and> provider_calls (snd (LLM_call sample_completion sample_to_json (LLM_init 0) ''hi'' True
          [(''temperature'', PyInt 1)] world0)) = []"
  by (simp add: run_defs)

text \<open>
  C1, amended. Let \<open>json\<close> be the serialization of the configuration after the prompt was
  stored and the user message appended. When the call passes the two assertions
  (\<open>return_sorted\<close> unset, \<open>only_completed\<close> passed as true): if the keyword arguments share
  no key with \<open>json\<close>, the provider is called once, with the entries of \<open>json\<close> followed by
  the keyword arguments; if they share a key, the call fails with \<open>TypeError\<close> for a shared
  key, the provider is not called and no history entry is appended. When an assertion
  fails, the call fails with the assertion error whatever the keys, the provider is not
  called and no history entry is appended.
\<close>

theorem extra_params_merge:
  "let res = LLM_call completion to_json self p only_completed_arg kwargs w;
       json = to_json ((store w (llm_params self))
                \<lparr>only_completed := True,
                 prompt := p,
                 messages := Some (messages_list (store w (llm_params self)) @
                                   [\<lparr>role = ''user'', chat_content = p\<rparr>])\<rparr>) False
   in if return_sorted (store w (llm_params self)) \<or> \<not> only_completed_arg
      then fst res = Inl (AssertionError ''for now'')
           \<and> provider_calls (snd res) = provider_calls w
           \<and> LLM_history (snd res) = LLM_history w
      else if set (map fst kwargs) \<inter> set (map fst json) = {}
      then provider_calls (snd res) = provider_calls w @ [json @ kwargs]
      else (\<exists>k \<in> set (map fst kwargs) \<inter> set (map fst json). fst res = Inl (TypeError k))
           \<and> provider_calls (snd res) = provider_calls w
           \<and> LLM_history (snd res) = LLM_history w"
proof (cases "return_sorted (store w (llm_params self)) \<or> \<not> only_completed_arg")
  case True
  from LLM_call_assert [OF True, of completion to_json p kwargs] True show ?thesis
    unfolding Let_def by (simp only: if_True) simp
next
  case False
  then have pass: "only_completed_arg" "\<not> return_sorted (store w (llm_params self))"
    by simp_all
  from LLM_call_kwargs_pass [OF pass, of completion to_json p kwargs] False show ?thesis
    unfolding Let_def by (simp only: if_False)
qed

theorem extra_params_merge_witness:
  "\<not> return_sorted (store world0 (llm_params (LLM_init 0)))
   \<and> provider_calls (snd (LLM_call sample_completion sample_to_json (LLM_init 0) ''hi'' True
        [(''n'', PyInt 2)] world0)) =
     [[(''messages'', PyList [PyDict [(''role'', PyStr ''user''), (''content'', PyStr ''hi'')]]),
       (''model'', PyStr ''gpt''), (''temperature'', PyInt 0), (''api_key'', PyStr ''k''),
       (''n'', PyInt 2)]]
   \<and> provider_calls (snd (LLM_call sample_completion sample_to_json (LLM_init 0) ''hi'' True
        [(''model'', PyStr ''m'')] world0)) = []
   \<and> return_sorted (store sorted_world (llm_params (LLM_init 0)))
   \<and> fst (LLM_call sample_completion sample_to_json (LLM_init 0) ''hi'' True
        [(''model'', PyStr ''m'')] sorted_world) = Inl (AssertionError ''for now'')
   \<and> provider_calls (snd (LLM_call sample_completion sample_to_json (LLM_init 0) ''hi'' True
        [(''model'', PyStr ''m'')] sorted_world)) = []"
  using extra_params_merge [of sample_completion sample_to_json "LLM_init 0" "''hi''" True
          "[(''n'', PyInt 2)]" world0]
        extra_params_merge [of sample_completion sample_to_json "LLM_init 0" "''hi''" True
          "[(''model'', PyStr ''m'')]" world0]
        extra_params_merge [of sample_completion sample_to_json "LLM_init 0" "''hi''" True
          "[(''model'', PyStr ''m'')]" sorted_world]
  by (simp add: world0_def sorted_world_def sample_params_def LLM_init_def sample_to_json_def
        messages_list_def Let_def)

section \<open>Log-probability data in the output\<close>

text \<open>
  C2, as stated, fails: with the \<open>logprobs\<close> flag set and a choice that carries no
  log-probability data, the returned element has the key \<open>"logprobs"\<close> present, with the
  value \<open>None\<close>.
\<close>

theorem logprobs_null_when_data_missing:
  "params_logprobs (store world0 (llm_params (LLM_init 0)))
   \<and> logprobs choice_A = PyNone
   \<and> fst (LLM_call truncated_completion sample_to_json (LLM_init 0) ''hi'' True [] world0) =
       Inr [\<lparr>text_key = ''A'', logprobs_key = Some PyNone\<rparr>,
            \<lparr>text_key = ''A'', logprobs_key = Some PyNone\<rparr>]"
  by (simp add: run_defs)

text \<open>
  C2, amended. In every returned element the key \<open>"logprobs"\<close> is present exactly when the
  \<open>logprobs\<close> flag of the configuration is set. When it is set, the value is the choice's
  log-probability data if that data is truthy, and \<open>None\<close> otherwise; when it is unset the key
  is absent. This holds for the transformation on any list of choices and for the result of
  a successful call, whose elements come from the provider's filtered choices.
\<close>

theorem logprobs_key_follows_flag:
  "map logprobs_key (transform_choices_to_dspy_model_response cs add_logprobs) =
     map (\<lambda>c. if add_logprobs
               then Some (if truthy (logprobs c) then logprobs c else PyNone)
               else None) cs
   \<and> (fst (LLM_call completion to_json self p only_completed_arg kwargs w) = Inr out \<longrightarrow>
        (\<exists>args response.
            provider_calls (snd (LLM_call completion to_json self p only_completed_arg kwargs w)) =
              provider_calls w @ [args]
          \<and> completion args = Inr response
          \<and> map logprobs_key out =
              map (\<lambda>c. if params_logprobs (store w (llm_params self))
                        then Some (if truthy (logprobs c) then logprobs c else PyNone)
                        else None)
                  (filter_only_completed (choices response))))"
proof (intro conjI impI)
  show "map logprobs_key (transform_choices_to_dspy_model_response cs add_logprobs) =
     map (\<lambda>c. if add_logprobs
               then Some (if truthy (logprobs c) then logprobs c else PyNone)
               else None) cs"
    by (simp add: transform_as_map comp_def)
next
  let ?res = "LLM_call completion to_json self p only_completed_arg kwargs w"
  assume "fst ?res = Inr out"
  then have "?res = (Inr out, snd ?res)"
    by (cases ?res) simp
  from LLM_call_Inr [OF this] obtain args response where
    "provider_calls (snd ?res) = provider_calls w @ [args]"
    "completion args = Inr response"
    "out = transform_choices_to_dspy_model_response (filter_only_completed (choices response))
             (params_logprobs (store w (llm_params self)))"
    by blast
  then show "\<exists>args response.
            provider_calls (snd ?res) = provider_calls w @ [args]
          \<and> completion args = Inr response
          \<and> map logprobs_key out =
              map (\<lambda>c. if params_logprobs (store w (llm_params self))
                        then Some (if truthy (logprobs c) then logprobs c else PyNone)
                        else None)
                  (filter_only_completed (choices response))"
    by (auto simp: transform_as_map comp_def)
qed

theorem logprobs_key_follows_flag_witness:
  "fst (LLM_call sample_completion sample_to_json (LLM_init 0) ''hi'' True [] world0) =
     Inr [\<lparr>text_key = ''B'', logprobs_key = Some (PyDict [(''tokens'', PyList [PyStr ''B''])])\<rparr>]
   \<and> (\<exists>args response.
          provider_calls (snd (LLM_call sample_completion sample_to_json (LLM_init 0) ''hi'' True
             [] world0)) = provider_calls world0 @ [args]
        \<and> sample_completion args = Inr response
        \<and> map logprobs_key
            [\<lparr>text_key = ''B'', logprobs_key = Some (PyDict [(''tokens'', PyList [PyStr ''B''])])\<rparr>] =
            map (\<lambda>c. if params_logprobs (store world0 (llm_params (LLM_init 0)))
                      then Some (if truthy (logprobs c) then logprobs c else PyNone)
                      else None)
                (filter_only_completed (choices response)))"
proof -
  have run: "fst (LLM_call sample_completion sample_to_json (LLM_init 0) ''hi'' True [] world0) =
     Inr [\<lparr>text_key = ''B'', logprobs_key = Some (PyDict [(''tokens'', PyList [PyStr ''B''])])\<rparr>]"
    by (simp add: run_defs)
  from logprobs_key_follows_flag [THEN conjunct2, rule_format, OF run] run
  show ?thesis
    by blast
qed

section \<open>The history list and the instances\<close>

text \<open>
  C3. The code does not do this: \<open>history\<close> is bound once, in the class body, and
  \<open>__init__\<close> never binds it on the instance. In the state after loading, a client has an
  empty history; after one successful call through the client built on address 0, the
  client built on address 1 (another configuration object) has a history of length 1.
\<close>

theorem history_shared_across_instances:
  "history world0 (LLM_init 1) = []
   \<and> length (history (snd (LLM_call sample_completion sample_to_json (LLM_init 0) ''hi'' True []
                world0)) (LLM_init 1)) = 1"
  by (simp add: run_defs)

section \<open>The filter never empties the result\<close>

text \<open>
  C4. If every choice has finish reason \<open>"length"\<close>, \<open>filter_only_completed\<close> returns the
  original list; on a non-empty list it never returns the empty list; and when the provider
  returns at least one choice whenever it succeeds, a successful call returns at least one
  element.
\<close>

theorem filter_never_empties:
  "((\<forall>c \<in> set cs. finish_reason c = Some ''length'') \<longrightarrow> filter_only_completed cs = cs)
   \<and> (cs \<noteq> [] \<longrightarrow> filter_only_completed cs \<noteq> [])
   \<and> ((\<forall>args response. completion args = Inr response \<longrightarrow> choices response \<noteq> [])
        \<and> fst (LLM_call completion to_json self p only_completed_arg kwargs w) = Inr out
        \<longrightarrow> out \<noteq> [])"
proof (intro conjI impI)
  assume "\<forall>c \<in> set cs. finish_reason c = Some ''length''"
  then show "filter_only_completed cs = cs"
    by (simp add: filter_only_completed_cases)
next
  assume "cs \<noteq> []"
  then show "filter_only_completed cs \<noteq> []"
    by (auto simp: filter_only_completed_cases filter_empty_conv)
next
  let ?res = "LLM_call completion to_json self p only_completed_arg kwargs w"
  assume h: "(\<forall>args response. completion args = Inr response \<longrightarrow> choices response \<noteq> [])
        \<and> fst ?res = Inr out"
  then have "?res = (Inr out, snd ?res)"
    by (cases ?res) simp
  from LLM_call_Inr [OF this] obtain args response where
    ok: "completion args = Inr response"
    and out: "out = transform_choices_to_dspy_model_response
                      (filter_only_completed (choices response))
                      (params_logprobs (store w (llm_params self)))"
    by blast
  from h ok have "choices response \<noteq> []"
    by blast
  then have "filter_only_completed (choices response) \<noteq> []"
    by (auto simp: filter_only_completed_cases filter_empty_conv)
  then show "out \<noteq> []"
    by (simp add: out transform_as_map)
qed

theorem filter_never_empties_witness:
  "map finish_reason [choice_A, choice_A] = [Some ''length'', Some ''length'']
   \<and> filter_only_completed [choice_A, choice_A] = [choice_A, choice_A]
   \<and> [choice_A, choice_A] \<noteq> []
   \<and> filter_only_completed [choice_A, choice_A] \<noteq> []
   \<and> fst (LLM_call truncated_completion sample_to_json (LLM_init 0) ''hi'' True [] world0) =
       Inr [\<lparr>text_key = ''A'', logprobs_key = Some PyNone\<rparr>,
            \<lparr>text_key = ''A'', logprobs_key = Some PyNone\<rparr>]
   \<and> [\<lparr>text_key = ''A'', logprobs_key = Some PyNone\<rparr>,
       \<lparr>text_key = ''A'', logprobs_key = Some PyNone\<rparr>] \<noteq> []"
proof -
  have all: "\<forall>c \<in> set [choice_A, choice_A]. finish_reason c = Some ''length''"
    by (simp add: choice_A_def)
  have prov: "\<forall>args response. truncated_completion args = Inr response \<longrightarrow> choices response \<noteq> []"
    by (auto simp: truncated_completion_def truncated_response_def)
  have run: "fst (LLM_call truncated_completion sample_to_json (LLM_init 0) ''hi'' True [] world0) =
       Inr [\<lparr>text_key = ''A'', logprobs_key = Some PyNone\<rparr>,
            \<lparr>text_key = ''A'', logprobs_key = Some PyNone\<rparr>]"
    by (simp add: run_defs)
  note inst = filter_never_empties [of "[choice_A, choice_A]" truncated_completion sample_to_json
      "LLM_init 0" "''hi''" True "[]" world0
      "[\<lparr>text_key = ''A'', logprobs_key = Some PyNone\<rparr>,
        \<lparr>text_key = ''A'', logprobs_key = Some PyNone\<rparr>]"]
  have fr: "map finish_reason [choice_A, choice_A] = [Some ''length'', Some ''length'']"
    by (simp add: choice_A_def)
  from inst all prov run fr show ?thesis
    by simp
qed

section \<open>The assertions\<close>

text \<open>
  C5. A call with \<open>return_sorted\<close> set in the configuration, or with \<open>only_completed\<close>
  passed as false, fails with the assertion error; the provider has not been called, the
  history has no new entry and the message sequence is as before.
\<close>

theorem assertion_fails_before_provider:
  assumes "return_sorted (store w (llm_params self)) \<or> \<not> only_completed_arg"
  shows "fst (LLM_call completion to_json self p only_completed_arg kwargs w) =
           Inl (AssertionError ''for now'')
         \<and> provider_calls (snd (LLM_call completion to_json self p only_completed_arg kwargs w)) =
             provider_calls w
         \<and> LLM_history (snd (LLM_call completion to_json self p only_completed_arg kwargs w)) =
             LLM_history w
         \<and> messages (store (snd (LLM_call completion to_json self p only_completed_arg kwargs w))
              (llm_params self)) = messages (store w (llm_params self))"
  using LLM_call_assert [OF assms, of completion to_json p kwargs] by simp

theorem assertion_fails_before_provider_witness:
  "(return_sorted (store sorted_world (llm_params (LLM_init 0))) \<or> \<not> True)
   \<and> fst (LLM_call sample_completion sample_to_json (LLM_init 0) ''hi'' True [] sorted_world) =
       Inl (AssertionError ''for now'')
   \<and> provider_calls (snd (LLM_call sample_completion sample_to_json (LLM_init 0) ''hi'' True []
        sorted_world)) = []
   \<and> LLM_history (snd (LLM_call sample_completion sample_to_json (LLM_init 0) ''hi'' True []
        sorted_world)) = []
   \<and> (return_sorted (store world0 (llm_params (LLM_init 0))) \<or> \<not> False)
   \<and> fst (LLM_call sample_completion sample_to_json (LLM_init 0) ''hi'' False [] world0) =
       Inl (AssertionError ''for now'')
   \<and> provider_calls (snd (LLM_call sample_completion sample_to_json (LLM_init 0) ''hi'' False []
        world0)) = []"
proof -
  have h1: "return_sorted (store sorted_world (llm_params (LLM_init 0))) \<or> \<not> True"
    by (simp add: sorted_world_def world0_def)
  have h2: "return_sorted (store world0 (llm_params (LLM_init 0))) \<or> \<not> False"
    by simp
  have e: "provider_calls sorted_world = []" "LLM_history sorted_world = []"
    "provider_calls world0 = []"
    by (simp_all add: sorted_world_def world0_def)
  from assertion_fails_before_provider [OF h1, of sample_completion sample_to_json "''hi''" "[]"]
       assertion_fails_before_provider [OF h2, of sample_completion sample_to_json "''hi''" "[]"]
       h1 e
  show ?thesis
    by simp
qed

section \<open>Message accumulation\<close>

text \<open>
  C6, as stated, fails: with \<open>return_sorted\<close> set, a call with prompt \<open>hi\<close> stops at the
  assertion, which comes before \<open>update_messages_with_prompt\<close>; afterwards the message
  sequence is still empty and \<open>prompt\<close> has not been overwritten.
\<close>

theorem messages_not_appended_on_assertion:
  "messages_list (store (run_calls sample_to_json (LLM_init 0)
       [(''hi'', True, [], sample_completion)] sorted_world) (llm_params (LLM_init 0))) = []
   \<and> prompt (store (run_calls sample_to_json (LLM_init 0)
       [(''hi'', True, [], sample_completion)] sorted_world) (llm_params (LLM_init 0))) = []"
  by (simp add: run_defs)

text \<open>
  C6, amended. For N sequential calls on one client that all pass the assertions
  (\<open>return_sorted\<close> unset, \<open>only_completed\<close> passed as true), whatever the keyword arguments
  and whether or not the provider calls succeed, the message sequence afterwards is the
  earlier one followed by N user messages with the prompts in call order, and for N > 0
  \<open>prompt\<close> is the last prompt. A call is \<open>(prompt, only_completed, kwargs, provider)\<close>, so
  \<open>fst c\<close> is its prompt and \<open>fst (snd c)\<close> its \<open>only_completed\<close> argument.
\<close>

theorem messages_accumulate:
  assumes "\<not> return_sorted (store w (llm_params self))"
    and "\<forall>c \<in> set calls. fst (snd c)"
  shows "messages_list (store (run_calls to_json self calls w) (llm_params self)) =
           messages_list (store w (llm_params self)) @
             map (\<lambda>c. \<lparr>role = ''user'', chat_content = fst c\<rparr>) calls
         \<and> prompt (store (run_calls to_json self calls w) (llm_params self)) =
             (if calls = [] then prompt (store w (llm_params self)) else fst (last calls))"
  using assms
proof (induction calls arbitrary: w)
  case Nil
  then show ?case by simp
next
  case (Cons c calls)
  obtain p oc kwargs completion where c: "c = (p, oc, kwargs, completion)"
    by (cases c) auto
  with Cons.prems have oc: "oc" by simp
  let ?w1 = "snd (LLM_call completion to_json self p oc kwargs w)"
  have st: "store ?w1 = (store w)(llm_params self :=
              (store w (llm_params self))
                \<lparr>only_completed := True,
                 prompt := p,
                 messages := Some (messages_list (store w (llm_params self)) @
                                   [\<lparr>role = ''user'', chat_content = p\<rparr>])\<rparr>)"
    using LLM_call_store_pass [OF oc Cons.prems(1)] .
  then have rs: "\<not> return_sorted (store ?w1 (llm_params self))"
    using Cons.prems(1) by simp
  from Cons.prems(2) have rest: "\<forall>c \<in> set calls. fst (snd c)" by simp
  from Cons.IH [OF rs rest] show ?case
    by (simp add: c st messages_list_def)
qed

theorem messages_accumulate_witness:
  "\<not> return_sorted (store world0 (llm_params (LLM_init 0)))
   \<and> map (\<lambda>c. fst (snd c))
         [(''p1'', True, [], sample_completion),
          (''p2'', True, [(''model'', PyStr ''m'')], sample_completion),
          (''p3'', True, [], failing_completion)] = [True, True, True]
   \<and> messages_list (store (run_calls sample_to_json (LLM_init 0)
        [(''p1'', True, [], sample_completion),
         (''p2'', True, [(''model'', PyStr ''m'')], sample_completion),
         (''p3'', True, [], failing_completion)] world0) (llm_params (LLM_init 0))) =
       [\<lparr>role = ''user'', chat_content = ''p1''\<rparr>,
        \<lparr>role = ''user'', chat_content = ''p2''\<rparr>,
        \<lparr>role = ''user'', chat_content = ''p3''\<rparr>]
   \<and> prompt (store (run_calls sample_to_json (LLM_init 0)
        [(''p1'', True, [], sample_completion),
         (''p2'', True, [(''model'', PyStr ''m'')], sample_completion),
         (''p3'', True, [], failing_completion)] world0) (llm_params (LLM_init 0))) = ''p3''"
proof -
  have h1: "\<not> return_sorted (store world0 (llm_params (LLM_init 0)))"
    by (simp add: world0_def sample_params_def)
  have h2: "\<forall>c \<in> set [(''p1'', True, [], sample_completion),
                    (''p2'', True, [(''model'', PyStr ''m'')], sample_completion),
                    (''p3'', True, [], failing_completion)]. fst (snd c)"
    by simp
  have m0: "messages_list (store world0 (llm_params (LLM_init 0))) = []"
    by (simp add: world0_def sample_params_def messages_list_def)
  from messages_accumulate [OF h1 h2, of sample_to_json] h1 m0 show ?thesis
    by simp
qed

section \<open>History is append-only\<close>

text \<open>
  C7. A call that returns normally has made exactly one provider call, which succeeded,
  and the history afterwards is the earlier history followed by one entry holding that
  response. A call that fails leaves the history unchanged, and then either no provider
  call was made or the one made failed with the error the call reports. No operation of
  the client edits, reorders or removes entries: \<open>update_messages_with_prompt\<close> and
  \<open>log_usage\<close> leave the history as it is, and after \<open>request\<close> or any sequence of
  calls the earlier history is a prefix of the later one.
\<close>

theorem history_append_only:
  "(case fst (LLM_call completion to_json self p only_completed_arg kwargs w) of
      Inr out \<Rightarrow>
        (\<exists>args response.
            provider_calls (snd (LLM_call completion to_json self p only_completed_arg kwargs w)) =
              provider_calls w @ [args]
          \<and> completion args = Inr response
          \<and> (\<exists>entry. h_response entry = response
                \<and> LLM_history (snd (LLM_call completion to_json self p only_completed_arg kwargs w)) =
                    LLM_history w @ [entry]))
    | Inl e \<Rightarrow>
        LLM_history (snd (LLM_call completion to_json self p only_completed_arg kwargs w)) =
          LLM_history w
        \<and> (provider_calls (snd (LLM_call completion to_json self p only_completed_arg kwargs w)) =
             provider_calls w
           \<or> (\<exists>args.
                 provider_calls (snd (LLM_call completion to_json self p only_completed_arg kwargs w)) =
                   provider_calls w @ [args]
               \<and> completion args = Inl e)))
   \<and> LLM_history (update_messages_with_prompt self p w) = LLM_history w
   \<and> LLM_history (log_usage response0 w) = LLM_history w
   \<and> prefix (LLM_history w) (LLM_history (snd (request completion to_json self p kwargs w)))
   \<and> prefix (LLM_history w) (LLM_history (run_calls to_json self calls w))"
proof (intro conjI)
  let ?res = "LLM_call completion to_json self p only_completed_arg kwargs w"
  show "case fst ?res of
      Inr out \<Rightarrow>
        (\<exists>args response.
            provider_calls (snd ?res) = provider_calls w @ [args]
          \<and> completion args = Inr response
          \<and> (\<exists>entry. h_response entry = response
                \<and> LLM_history (snd ?res) = LLM_history w @ [entry]))
    | Inl e \<Rightarrow>
        LLM_history (snd ?res) = LLM_history w
        \<and> (provider_calls (snd ?res) = provider_calls w
           \<or> (\<exists>args. provider_calls (snd ?res) = provider_calls w @ [args]
               \<and> completion args = Inl e))"
  proof (cases "fst ?res")
    case (Inl e)
    then have eq: "?res = (Inl e, snd ?res)"
      by (cases ?res) simp
    from LLM_call_Inl [OF eq] LLM_call_Inl_calls [OF eq] Inl show ?thesis
      by simp
  next
    case (Inr out)
    then have eq: "?res = (Inr out, snd ?res)"
      by (cases ?res) simp
    from LLM_call_Inr [OF eq] obtain args response where
      calls: "provider_calls (snd ?res) = provider_calls w @ [args]"
      and ok: "completion args = Inr response"
      and hist: "LLM_history (snd ?res) = LLM_history w @
          [\<lparr>h_prompt = p, h_response = response, h_raw_kwargs = kwargs,
            h_kwargs = to_json (store (snd ?res) (llm_params self)) True\<rparr>]"
      by blast
    let ?entry = "\<lparr>h_prompt = p, h_response = response, h_raw_kwargs = kwargs,
            h_kwargs = to_json (store (snd ?res) (llm_params self)) True\<rparr>"
    have "h_response ?entry = response"
      by simp
    with hist have "\<exists>entry. h_response entry = response
                \<and> LLM_history (snd ?res) = LLM_history w @ [entry]"
      by blast
    with calls ok have "\<exists>args response.
            provider_calls (snd ?res) = provider_calls w @ [args]
          \<and> completion args = Inr response
          \<and> (\<exists>entry. h_response entry = response
                \<and> LLM_history (snd ?res) = LLM_history w @ [entry])"
      by blast
    with Inr show ?thesis
      by simp
  qed
next
  show "LLM_history (update_messages_with_prompt self p w) = LLM_history w"
    by (rule rest_update_messages)
next
  show "LLM_history (log_usage response0 w) = LLM_history w"
    by (rule rest_log_usage)
next
  show "prefix (LLM_history w) (LLM_history (snd (request completion to_json self p kwargs w)))"
    by (auto simp: request_def basic_request_def Let_def rest_update_messages split: sum.splits)
next
  show "prefix (LLM_history w) (LLM_history (run_calls to_json self calls w))"
    by (rule run_calls_history_prefix)
qed


theorem history_append_only_witness:
  "length (LLM_history (snd (LLM_call sample_completion sample_to_json (LLM_init 0) ''hi'' True []
      world0))) = 1
   \<and> LLM_history (snd (LLM_call failing_completion sample_to_json (LLM_init 0) ''hi'' True []
      world0)) = []"
proof -
  have ok: "fst (LLM_call sample_completion sample_to_json (LLM_init 0) ''hi'' True [] world0) =
      Inr [\<lparr>text_key = ''B'', logprobs_key = Some (PyDict [(''tokens'', PyList [PyStr ''B''])])\<rparr>]"
    by (simp add: run_defs)
  have bad: "fst (LLM_call failing_completion sample_to_json (LLM_init 0) ''hi'' True [] world0) =
      Inl (ProviderError ''quota'')"
    by (simp add: run_defs)
  have empty: "LLM_history world0 = []"
    by (simp add: world0_def)
  from history_append_only [of sample_completion sample_to_json "LLM_init 0" "''hi''" True "[]"
         world0 sample_response "[]"]
  have "length (LLM_history (snd (LLM_call sample_completion sample_to_json (LLM_init 0) ''hi''
          True [] world0))) = 1"
    by (auto simp: ok empty)
  moreover
  from history_append_only [of failing_completion sample_to_json "LLM_init 0" "''hi''" True "[]"
         world0 sample_response "[]"]
  have "LLM_history (snd (LLM_call failing_completion sample_to_json (LLM_init 0) ''hi'' True []
      world0)) = []"
    by (simp add: bad empty)
  ultimately show ?thesis
    by simp
qed

section \<open>The completed-only filter\<close>

text \<open>
  C8. When at least one choice has a finish reason other than \<open>"length"\<close>,
  \<open>filter_only_completed\<close> returns exactly the choices whose finish reason differs from
  \<open>"length"\<close>; for a choice with finish reason \<open>"length"\<close> followed by one with \<open>"stop"\<close>
  the result is the second choice alone.
\<close>

theorem filter_keeps_completed:
  "((\<exists>c \<in> set cs. finish_reason c \<noteq> Some ''length'') \<longrightarrow>
      filter_only_completed cs = filter (\<lambda>c. finish_reason c \<noteq> Some ''length'') cs)
   \<and> (finish_reason a = Some ''length'' \<and> finish_reason b = Some ''stop'' \<longrightarrow>
        filter_only_completed [a, b] = [b])"
  by (simp add: filter_only_completed_cases)

theorem filter_keeps_completed_witness:
  "(\<exists>c \<in> set [choice_B, choice_A, choice_B]. finish_reason c \<noteq> Some ''length'')
   \<and> filter_only_completed [choice_B, choice_A, choice_B] = [choice_B, choice_B]
   \<and> finish_reason choice_A = Some ''length'' \<and> finish_reason choice_B = Some ''stop''
   \<and> content (message choice_A) = ''A'' \<and> content (message choice_B) = ''B''
   \<and> filter_only_completed [choice_A, choice_B] = [choice_B]"
proof -
  have fr: "finish_reason choice_A = Some ''length''" "finish_reason choice_B = Some ''stop''"
    by (simp_all add: choice_A_def choice_B_def)
  have tx: "content (message choice_A) = ''A''" "content (message choice_B) = ''B''"
    by (simp_all add: choice_A_def choice_B_def)
  from filter_keeps_completed [of "[choice_B, choice_A, choice_B]" choice_A choice_B] fr tx
  show ?thesis
    by simp
qed

text \<open>
  C9. The transformation maps the choices one to one, in order, and each element's text is
  the choice's message content; the filter returns a subsequence of its input (all of it
  when no choice was truncated); so the texts returned by a successful call are the message
  contents of the provider's surviving choices in the provider's order.
\<close>

theorem order_preserved:
  "map text_key (transform_choices_to_dspy_model_response cs add_logprobs) =
     map (\<lambda>c. content (message c)) cs
   \<and> subseq (filter_only_completed cs) cs
   \<and> ((\<forall>c \<in> set cs. finish_reason c \<noteq> Some ''length'') \<longrightarrow> filter_only_completed cs = cs)
   \<and> (fst (LLM_call completion to_json self p only_completed_arg kwargs w) = Inr out \<longrightarrow>
        (\<exists>args response.
            provider_calls (snd (LLM_call completion to_json self p only_completed_arg kwargs w)) =
              provider_calls w @ [args]
          \<and> completion args = Inr response
          \<and> subseq (filter_only_completed (choices response)) (choices response)
          \<and> map text_key out =
              map (\<lambda>c. content (message c)) (filter_only_completed (choices response))))"
proof (intro conjI impI)
  show "map text_key (transform_choices_to_dspy_model_response cs add_logprobs) =
     map (\<lambda>c. content (message c)) cs"
    by (simp add: transform_as_map get_text_from_choice_def comp_def)
next
  show "subseq (filter_only_completed cs) cs"
    by (simp add: filter_only_completed_cases)
next
  assume "\<forall>c \<in> set cs. finish_reason c \<noteq> Some ''length''"
  then show "filter_only_completed cs = cs"
    by (simp add: filter_only_completed_cases)
next
  let ?res = "LLM_call completion to_json self p only_completed_arg kwargs w"
  assume "fst ?res = Inr out"
  then have "?res = (Inr out, snd ?res)"
    by (cases ?res) simp
  from LLM_call_Inr [OF this] obtain args response where
    calls: "provider_calls (snd ?res) = provider_calls w @ [args]"
    and ok: "completion args = Inr response"
    and out: "out = transform_choices_to_dspy_model_response
                (filter_only_completed (choices response))
                (params_logprobs (store w (llm_params self)))"
    by blast
  have "subseq (filter_only_completed (choices response)) (choices response)"
    by (simp add: filter_only_completed_cases)
  moreover have "map text_key out =
      map (\<lambda>c. content (message c)) (filter_only_completed (choices response))"
    by (simp add: out transform_as_map get_text_from_choice_def comp_def)
  ultimately show "\<exists>args response.
            provider_calls (snd ?res) = provider_calls w @ [args]
          \<and> completion args = Inr response
          \<and> subseq (filter_only_completed (choices response)) (choices response)
          \<and> map text_key out =
              map (\<lambda>c. content (message c)) (filter_only_completed (choices response))"
    using calls ok by blast
qed

theorem order_preserved_witness:
  "finish_reason choice_B = Some ''stop''
   \<and> filter_only_completed [choice_B, choice_B, choice_B] = [choice_B, choice_B, choice_B]
   \<and> fst (LLM_call sample_completion sample_to_json (LLM_init 0) ''hi'' True [] world0) =
       Inr [\<lparr>text_key = ''B'', logprobs_key = Some (PyDict [(''tokens'', PyList [PyStr ''B''])])\<rparr>]
   \<and> (\<exists>args response.
          sample_completion args = Inr response
        \<and> subseq (filter_only_completed (choices response)) (choices response)
        \<and> map text_key
            [\<lparr>text_key = ''B'', logprobs_key = Some (PyDict [(''tokens'', PyList [PyStr ''B''])])\<rparr>] =
            map (\<lambda>c. content (message c)) (filter_only_completed (choices response)))"
proof -
  have h: "\<forall>c \<in> set [choice_B, choice_B, choice_B]. finish_reason c \<noteq> Some ''length''"
    by (simp add: choice_B_def)
  have run: "fst (LLM_call sample_completion sample_to_json (LLM_init 0) ''hi'' True [] world0) =
       Inr [\<lparr>text_key = ''B'', logprobs_key = Some (PyDict [(''tokens'', PyList [PyStr ''B''])])\<rparr>]"
    by (simp add: run_defs)
  note inst = order_preserved [of "[choice_B, choice_B, choice_B]" True sample_completion
      sample_to_json "LLM_init 0" "''hi''" True "[]" world0
      "[\<lparr>text_key = ''B'', logprobs_key = Some (PyDict [(''tokens'', PyList [PyStr ''B''])])\<rparr>]"]
  from inst h have "filter_only_completed [choice_B, choice_B, choice_B] =
      [choice_B, choice_B, choice_B]"
    by blast
  moreover from inst run have "\<exists>args response.
          sample_completion args = Inr response
        \<and> subseq (filter_only_completed (choices response)) (choices response)
        \<and> map text_key
            [\<lparr>text_key = ''B'', logprobs_key = Some (PyDict [(''tokens'', PyList [PyStr ''B''])])\<rparr>] =
            map (\<lambda>c. content (message c)) (filter_only_completed (choices response))"
    by blast
  moreover have "finish_reason choice_B = Some ''stop''"
    by (simp add: choice_B_def)
  ultimately show ?thesis
    using run by blast
qed

text \<open>
  C10. Applying \<open>filter_only_completed\<close> twice gives the same list as applying it once,
  for every list of choices.
\<close>

theorem filter_only_completed_idem:
  "filter_only_completed (filter_only_completed cs) = filter_only_completed cs"
proof (cases "\<exists>c \<in> set cs. finish_reason c \<noteq> Some ''length''")
  case True
  let ?f = "filter (\<lambda>c. finish_reason c \<noteq> Some ''length'') cs"
  from True have once: "filter_only_completed cs = ?f"
    by (simp add: filter_only_completed_cases)
  from True have "\<exists>c \<in> set ?f. finish_reason c \<noteq> Some ''length''"
    by auto
  then have "filter_only_completed ?f = filter (\<lambda>c. finish_reason c \<noteq> Some ''length'') ?f"
    by (simp only: filter_only_completed_cases if_True)
  then show ?thesis
    using once by simp
next
  case False
  then have "filter_only_completed cs = cs"
    by (simp add: filter_only_completed_cases)
  then show ?thesis
    by simp
qed

end
